theory Spec2Isabelle
  imports
    Complex_Main
    "HOL-Library.Multiset"
    "HOL-Library.Sublist"
    "HOL-Library.Product_Lexorder"
    "HOL-Library.List_Lexorder"
    "HOL-Library.Char_ord"
begin

section \<open>Values\<close>

text \<open>
  Exceptions of the Python source are values. Only the class of the exception matters
  to the code, which catches \<open>Exception\<close> and never inspects it.
\<close>

datatype py_error = IndexError | KeyError | ValueError | OtherError

text \<open>
  Prices, volumes and ratios are numpy \<open>float64\<close> values (cells of the downloaded
  frame) or Python floats (entries of the \<open>info\<close> dictionary). A value is modelled by
  its IEEE-754 class: not-a-number, an infinity, or a finite number carried as an exact
  rational. Rounding and overflow of finite results and the sign of zero are not
  modelled. Arithmetic never raises: numpy division by zero yields an infinity or
  not-a-number (with a warning), as written out in \<open>npdiv\<close>.
\<close>

datatype npfloat = Fin rat | PInf | NInf | NaN

fun npneg :: "npfloat \<Rightarrow> npfloat" where
  "npneg (Fin a) = Fin (- a)"
| "npneg PInf = NInf"
| "npneg NInf = PInf"
| "npneg NaN = NaN"

fun npadd :: "npfloat \<Rightarrow> npfloat \<Rightarrow> npfloat" where
  "npadd NaN y = NaN"
| "npadd x NaN = NaN"
| "npadd (Fin a) (Fin b) = Fin (a + b)"
| "npadd PInf NInf = NaN"
| "npadd NInf PInf = NaN"
| "npadd PInf y = PInf"
| "npadd NInf y = NInf"
| "npadd (Fin a) PInf = PInf"
| "npadd (Fin a) NInf = NInf"

definition npsub :: "npfloat \<Rightarrow> npfloat \<Rightarrow> npfloat" where
  "npsub x y = npadd x (npneg y)"

fun npmul :: "npfloat \<Rightarrow> npfloat \<Rightarrow> npfloat" where
  "npmul NaN y = NaN"
| "npmul x NaN = NaN"
| "npmul (Fin a) (Fin b) = Fin (a * b)"
| "npmul (Fin a) PInf = (if a = 0 then NaN else if 0 < a then PInf else NInf)"
| "npmul (Fin a) NInf = (if a = 0 then NaN else if 0 < a then NInf else PInf)"
| "npmul PInf (Fin b) = (if b = 0 then NaN else if 0 < b then PInf else NInf)"
| "npmul NInf (Fin b) = (if b = 0 then NaN else if 0 < b then NInf else PInf)"
| "npmul PInf PInf = PInf"
| "npmul PInf NInf = NInf"
| "npmul NInf PInf = NInf"
| "npmul NInf NInf = PInf"

fun npdiv :: "npfloat \<Rightarrow> npfloat \<Rightarrow> npfloat" where
  "npdiv NaN y = NaN"
| "npdiv x NaN = NaN"
| "npdiv (Fin a) (Fin b) =
     (if b = 0 then (if a = 0 then NaN else if 0 < a then PInf else NInf)
      else Fin (a / b))"
| "npdiv (Fin a) PInf = Fin 0"
| "npdiv (Fin a) NInf = Fin 0"
| "npdiv PInf (Fin b) = (if 0 \<le> b then PInf else NInf)"
| "npdiv NInf (Fin b) = (if 0 \<le> b then NInf else PInf)"
| "npdiv PInf PInf = NaN"
| "npdiv PInf NInf = NaN"
| "npdiv NInf PInf = NaN"
| "npdiv NInf NInf = NaN"

text \<open>Python's truth value of a float: everything but zero, not-a-number included.\<close>

fun truthy :: "npfloat \<Rightarrow> bool" where
  "truthy (Fin a) = (a \<noteq> 0)"
| "truthy x = True"

text \<open>
  Positional indexing \<open>.iloc[i]\<close> of pandas: a negative index counts from the end, an
  index out of range raises \<open>IndexError\<close>.
\<close>

definition iloc :: "'a list \<Rightarrow> int \<Rightarrow> py_error + 'a" where
  "iloc xs i =
     (let j = (if i < 0 then int (length xs) + i else i)
      in if j < 0 \<or> int (length xs) \<le> j then Inl IndexError else Inr (xs ! nat j))"

section \<open>Snapshot builder: \<open>load_stock_data\<close>\<close>

text \<open>\<open>change = ((price - prev_price) / prev_price) * 100\<close>, with no guard.\<close>

definition pct_change :: "npfloat \<Rightarrow> npfloat \<Rightarrow> npfloat" where
  "pct_change price prev_price = npmul (npdiv (npsub price prev_price) prev_price) (Fin 100)"

text \<open>One row of the downloaded frame: the session's close and volume.\<close>

record bar =
  Close :: npfloat
  Volume :: npfloat

text \<open>
  The result of \<open>yf.download\<close>: \<open>rows\<close> are the rows of the frame itself (read
  when a single symbol was requested), \<open>by_ticker\<close> is the per-symbol sub-frame
  \<open>data[symbol]\<close>, absent for a symbol the frame has no column group for.
\<close>

record downloaded =
  rows :: "bar list"
  by_ticker :: "string \<rightharpoonup> bar list"

text \<open>
  The \<open>info\<close> dictionary of a ticker, restricted to the keys the code reads.
  \<open>None\<close> is an absent key.
\<close>

record ticker_info =
  info_sector :: "string option"
  marketCap :: "npfloat option"
  trailingPE :: "npfloat option"
  dividendYield :: "npfloat option"
  shortName :: "string option"

text \<open>
  The quote source (yfinance), an external and partially failing dependency: the batch
  download and the per-symbol \<open>Ticker(symbol).info\<close> may each raise.
\<close>

record quote_source =
  download :: "string list \<Rightarrow> py_error + downloaded"
  info_of :: "string \<Rightarrow> py_error + ticker_info"

text \<open>A row of the resulting frame: the dictionary appended to \<open>stock_data\<close>.\<close>

record snapshot =
  symbol :: string
  name :: string
  sector :: string
  price :: npfloat
  change :: npfloat
  volume :: npfloat
  market_cap :: npfloat
  pe_ratio :: "npfloat option"
  dividend_yield :: npfloat

text \<open>The frame \<open>pd.DataFrame(stock_data)\<close>: the rows in order of arrival.\<close>

type_synonym frame = "snapshot list"

text \<open>
  The rows read for a symbol: the frame itself when exactly one symbol was requested,
  \<open>data[symbol]\<close> otherwise (\<open>KeyError\<close> when the frame has no such group).
\<close>

definition symbol_rows :: "string list \<Rightarrow> downloaded \<Rightarrow> string \<Rightarrow> py_error + bar list" where
  "symbol_rows symbols data symb =
     (if length symbols = 1 then Inr (rows data)
      else case by_ticker data symb of None \<Rightarrow> Inl KeyError | Some rs \<Rightarrow> Inr rs)"

text \<open>
  The body of the inner \<open>try\<close>: every statement that can raise is a branch returning
  \<open>Inl\<close>; the last branch is the dictionary that is appended.
\<close>

definition build_snapshot ::
  "quote_source \<Rightarrow> string list \<Rightarrow> downloaded \<Rightarrow> string \<Rightarrow> py_error + snapshot" where
  "build_snapshot src symbols data symb =
     (case symbol_rows symbols data symb of
        Inl e \<Rightarrow> Inl e
      | Inr rs \<Rightarrow>
     (case iloc rs (- 1) of
        Inl e \<Rightarrow> Inl e
      | Inr today_data \<Rightarrow>
     (case iloc rs (- 2) of
        Inl e \<Rightarrow> Inl e
      | Inr yesterday_data \<Rightarrow>
     (case info_of src symb of
        Inl e \<Rightarrow> Inl e
      | Inr info \<Rightarrow>
          Inr \<lparr> symbol = symb,
                name = (case shortName info of None \<Rightarrow> symb | Some n \<Rightarrow> n),
                sector = (case info_sector info of None \<Rightarrow> ''Unknown'' | Some s \<Rightarrow> s),
                price = Close today_data,
                change = pct_change (Close today_data) (Close yesterday_data),
                volume = Volume today_data,
                market_cap = (case marketCap info of None \<Rightarrow> Fin 0 | Some m \<Rightarrow> m),
                pe_ratio = trailingPE info,
                dividend_yield =
                  (case dividendYield info of
                     None \<Rightarrow> Fin 0
                   | Some d \<Rightarrow> if truthy d then npmul d (Fin 100) else d) \<rparr>))))"

text \<open>
  The \<open>for symbol in symbols\<close> loop with its accumulator \<open>stock_data\<close>: a symbol
  whose body raises is skipped (\<open>except Exception: continue\<close>).
\<close>

fun collect ::
  "quote_source \<Rightarrow> string list \<Rightarrow> downloaded \<Rightarrow> string list \<Rightarrow> snapshot list \<Rightarrow> snapshot list" where
  "collect src symbols data [] stock_data = stock_data"
| "collect src symbols data (symb # rest) stock_data =
     (case build_snapshot src symbols data symb of
        Inl e \<Rightarrow> collect src symbols data rest stock_data
      | Inr snap \<Rightarrow> collect src symbols data rest (stock_data @ [snap]))"

text \<open>
  \<open>load_stock_data\<close>: \<open>None\<close> when the batch download raises (the outer
  \<open>except\<close>), the frame otherwise. The symbol list is a parameter; the source fixes it
  to \<open>tracked_symbols\<close>.
\<close>

definition load_stock_data :: "quote_source \<Rightarrow> string list \<Rightarrow> frame option" where
  "load_stock_data src symbols =
     (case download src symbols of
        Inl e \<Rightarrow> None
      | Inr data \<Rightarrow> Some (collect src symbols data symbols []))"

definition tracked_symbols :: "string list" where
  "tracked_symbols =
     [''AAPL'', ''MSFT'', ''GOOGL'', ''AMZN'', ''META'', ''TSLA'', ''NVDA'', ''JPM'',
      ''JNJ'', ''V'', ''PG'', ''UNH'', ''HD'', ''BAC'', ''MA'', ''DIS'', ''NFLX'', ''ADBE'',
      ''CRM'', ''INTC'', ''VZ'', ''CSCO'', ''PFE'', ''KO'', ''PEP'', ''WMT'', ''MRK'']"

text \<open>
  A symbol is kept when the body of the inner \<open>try\<close> runs to its end for it.
\<close>

definition symbol_ok :: "quote_source \<Rightarrow> string list \<Rightarrow> downloaded \<Rightarrow> string \<Rightarrow> bool" where
  "symbol_ok src symbols data symb = (\<not> isl (build_snapshot src symbols data symb))"

subsection \<open>Example inputs\<close>

definition two_bars :: "rat \<Rightarrow> rat \<Rightarrow> bar list" where
  "two_bars prev_close last_close =
     [\<lparr> Close = Fin prev_close, Volume = Fin 1000 \<rparr>,
      \<lparr> Close = Fin last_close, Volume = Fin 2000 \<rparr>]"

definition plain_info :: ticker_info where
  "plain_info =
     \<lparr> info_sector = None, marketCap = None, trailingPE = None,
       dividendYield = None, shortName = None \<rparr>"

text \<open>The batch \<open>A, B, C\<close> in which the quote source raises for \<open>B\<close> only.\<close>

definition abc_data :: downloaded where
  "abc_data =
     \<lparr> rows = [],
       by_ticker = [''A'' \<mapsto> two_bars 100 110, ''B'' \<mapsto> two_bars 50 49,
                    ''C'' \<mapsto> two_bars 20 20] \<rparr>"

definition abc_source :: quote_source where
  "abc_source =
     \<lparr> download = (\<lambda>symbols. Inr abc_data),
       info_of = (\<lambda>symb. if symb = ''B'' then Inl OtherError else Inr plain_info) \<rparr>"



section \<open>Ranking and aggregation over the frame\<close>

text \<open>
  \<open>df.nlargest(n, 'change')\<close> and \<open>df.nsmallest(n, 'change')\<close> with pandas'
  default \<open>keep='first'\<close>: the first \<open>n\<close> rows in descending (ascending) order
  of the column; rows whose value is not-a-number come after all others; rows with equal
  values keep their order in the frame. The order is a stable sort on the rank below.
\<close>

fun desc_rank :: "npfloat \<Rightarrow> int \<times> rat" where
  "desc_rank PInf = (0, 0)"
| "desc_rank (Fin a) = (1, - a)"
| "desc_rank NInf = (2, 0)"
| "desc_rank NaN = (3, 0)"

fun asc_rank :: "npfloat \<Rightarrow> int \<times> rat" where
  "asc_rank NInf = (0, 0)"
| "asc_rank (Fin a) = (1, a)"
| "asc_rank PInf = (2, 0)"
| "asc_rank NaN = (3, 0)"

definition nlargest :: "nat \<Rightarrow> frame \<Rightarrow> frame" where
  "nlargest n df = take n (sort_key (\<lambda>r. desc_rank (change r)) df)"

definition nsmallest :: "nat \<Rightarrow> frame \<Rightarrow> frame" where
  "nsmallest n df = take n (sort_key (\<lambda>r. asc_rank (change r)) df)"

text \<open>The two rankings of the dashboard: \<open>df.nlargest(10, 'change')\<close> and its mirror.\<close>

definition top_performers :: "frame \<Rightarrow> frame" where
  "top_performers df = nlargest 10 df"

definition bottom_performers :: "frame \<Rightarrow> frame" where
  "bottom_performers df = nsmallest 10 df"

text \<open>
  A cell of the \<open>pe_ratio\<close> column: a missing P/E (\<open>None\<close> in the dictionary) is
  a null cell of the frame, which pandas treats as not-a-number.
\<close>

definition pe_cell :: "snapshot \<Rightarrow> npfloat" where
  "pe_cell r = (case pe_ratio r of None \<Rightarrow> NaN | Some v \<Rightarrow> v)"

text \<open>
  \<open>Series.mean()\<close> with pandas' default \<open>skipna=True\<close>: null cells are left out
  of the sum and of the count; the mean of no cells is not-a-number.
\<close>

definition mean_skipna :: "npfloat list \<Rightarrow> npfloat" where
  "mean_skipna xs =
     (let vals = filter (\<lambda>x. x \<noteq> NaN) xs
      in if vals = [] then NaN
         else npdiv (foldl npadd (Fin 0) vals) (Fin (of_nat (length vals))))"

text \<open>\<open>avg_pe = df['pe_ratio'].mean()\<close> of the market overview.\<close>

definition avg_pe :: "frame \<Rightarrow> npfloat" where
  "avg_pe df = mean_skipna (map pe_cell df)"

text \<open>
  The format \<open>f"{x:.2f}"\<close>: Python prints the three special values by name; the
  fixed-point text of a finite value is the parameter \<open>fixed\<close>.
\<close>

definition format_2f :: "(rat \<Rightarrow> string) \<Rightarrow> npfloat \<Rightarrow> string" where
  "format_2f fixed x =
     (case x of Fin a \<Rightarrow> fixed a | PInf \<Rightarrow> ''inf'' | NInf \<Rightarrow> ''-inf'' | NaN \<Rightarrow> ''nan'')"

text \<open>The text of the "Average P/E" card: \<open>{avg_pe:.2f}\<close>.\<close>

definition render_avg_pe :: "(rat \<Rightarrow> string) \<Rightarrow> frame \<Rightarrow> string" where
  "render_avg_pe fixed df = format_2f fixed (avg_pe df)"

text \<open>
  The P/E values of the symbols whose P/E is not null, in the order of the frame.
\<close>

definition non_null_pe :: "frame \<Rightarrow> npfloat list" where
  "non_null_pe df =
     concat (map (\<lambda>r. case pe_ratio r of
                         None \<Rightarrow> []
                       | Some v \<Rightarrow> if v = NaN then [] else [v]) df)"

section \<open>Per-symbol lookup\<close>

text \<open>
  \<open>df[df['symbol'] == symbol].iloc[0]\<close>: the first row of the frame with that
  symbol. On a frame built from no rows there is no \<open>symbol\<close> column and the column
  access raises \<open>KeyError\<close>; when no row matches, \<open>.iloc[0]\<close> raises
  \<open>IndexError\<close>.
\<close>

definition select_symbol :: "frame \<Rightarrow> string \<Rightarrow> py_error + snapshot" where
  "select_symbol df symb =
     (if df = [] then Inl KeyError else iloc (filter (\<lambda>r. symbol r = symb) df) 0)"

text \<open>The dictionary returned by \<open>get_stock_metrics\<close>.\<close>

record stock_metrics =
  m_price :: npfloat
  m_change :: npfloat
  m_volume :: npfloat
  m_market_cap :: npfloat
  m_pe_ratio :: npfloat
  m_dividend_yield :: npfloat
  m_sector :: string

definition get_stock_metrics :: "frame \<Rightarrow> string \<Rightarrow> py_error + stock_metrics" where
  "get_stock_metrics df symb =
     (case select_symbol df symb of
        Inl e \<Rightarrow> Inl e
      | Inr stock_data \<Rightarrow>
          Inr \<lparr> m_price = price stock_data,
                m_change = change stock_data,
                m_volume = volume stock_data,
                m_market_cap = market_cap stock_data,
                m_pe_ratio = pe_cell stock_data,
                m_dividend_yield = dividend_yield stock_data,
                m_sector = sector stock_data \<rparr>)"

text \<open>
  The prediction page's \<open>stock_info = df[df['symbol'] == selected_stock].iloc[0]\<close>.
\<close>

definition current_stock_info :: "frame \<Rightarrow> string \<Rightarrow> py_error + snapshot" where
  "current_stock_info df selected_stock = select_symbol df selected_stock"

text \<open>Two rows with the same change, \<open>MSFT\<close> arriving before \<open>AAPL\<close>.\<close>

definition flat_row :: "string \<Rightarrow> rat \<Rightarrow> snapshot" where
  "flat_row symb c =
     \<lparr> symbol = symb, name = symb, sector = ''Unknown'', price = Fin 100, change = Fin c,
       volume = Fin 1000, market_cap = Fin 0, pe_ratio = None, dividend_yield = Fin 0 \<rparr>"

definition tie_frame :: frame where
  "tie_frame = [flat_row ''MSFT'' 1, flat_row ''AAPL'' 1, flat_row ''GOOGL'' 2]"

text \<open>
  A frame of the first twelve tracked symbols, in the order of the symbol list, on a
  day on which none of them moved.
\<close>

definition flat_market :: frame where
  "flat_market = map (\<lambda>symb. flat_row symb 0) (take 12 tracked_symbols)"

section \<open>Forecasting: \<open>train_prophet_model\<close> and \<open>plot_prediction\<close>\<close>

text \<open>
  The history frame of \<open>load_historical_data\<close> has the columns \<open>ds\<close> (the day,
  here a day number) and \<open>y\<close> (the close); the forecast frame has \<open>ds\<close>,
  \<open>yhat\<close>, \<open>yhat_lower\<close> and \<open>yhat_upper\<close>.
\<close>

record dated =
  ds :: int

record observation = dated +
  y :: npfloat

record forecast_row = dated +
  yhat :: npfloat
  yhat_lower :: npfloat
  yhat_upper :: npfloat

text \<open>
  Prophet is an external library. Its numerical work is a parameter: \<open>fit_params\<close>
  is the fitting of the trend and seasonality model, which may raise, and
  \<open>predict_at\<close> gives, for a fitted model and a day, the point estimate with its lower
  and upper bound. What the repository's code relies on is the shape of the library's
  frames, written out in \<open>prophet_fit\<close>, \<open>make_future_dataframe\<close> and
  \<open>predict\<close> below.
\<close>

record 'p prophet =
  fit_params :: "observation list \<Rightarrow> py_error + 'p"
  predict_at :: "'p \<Rightarrow> int \<Rightarrow> npfloat \<times> npfloat \<times> npfloat"

text \<open>A fitted model: the days of the history, sorted and without repetition, and the parameters.\<close>

record 'p fitted =
  history_dates :: "int list"
  params :: 'p

text \<open>
  \<open>model.fit(historical_data)\<close>: Prophet raises \<open>ValueError\<close> when the frame has
  fewer than two rows with a value of \<open>y\<close>; this is its only check on the length of
  the history.
\<close>

definition prophet_fit :: "'p prophet \<Rightarrow> observation list \<Rightarrow> py_error + 'p fitted" where
  "prophet_fit lib historical_data =
     (if length (filter (\<lambda>r. y r \<noteq> NaN) historical_data) < 2 then Inl ValueError
      else case fit_params lib historical_data of
             Inl e \<Rightarrow> Inl e
           | Inr p \<Rightarrow>
               Inr \<lparr> history_dates = sort (remdups (map ds historical_data)),
                     params = p \<rparr>)"

text \<open>
  \<open>model.make_future_dataframe(periods=periods)\<close>: the days of the history followed
  by the next \<open>periods\<close> days after the last of them. A model with no history has not
  been fitted.
\<close>

definition make_future_dataframe :: "'p fitted \<Rightarrow> nat \<Rightarrow> py_error + int list" where
  "make_future_dataframe model periods =
     (if history_dates model = [] then Inl OtherError
      else Inr (history_dates model @
                map (\<lambda>i. last (history_dates model) + int i) [1..<Suc periods]))"

text \<open>\<open>model.predict(future)\<close>: one row per day of \<open>future\<close>, in its order.\<close>

definition predict :: "'p prophet \<Rightarrow> 'p fitted \<Rightarrow> int list \<Rightarrow> py_error + forecast_row list" where
  "predict lib model future =
     (if future = [] then Inl ValueError
      else Inr (map (\<lambda>d. case predict_at lib (params model) d of
                            (est, lo, hi) \<Rightarrow>
                              \<lparr> ds = d, yhat = est, yhat_lower = lo, yhat_upper = hi \<rparr>)
                 future))"

text \<open>
  \<open>train_prophet_model\<close>: fit, build the future frame, predict, return the model and
  the forecast. The function has no check of its own.
\<close>

definition train_prophet_model ::
  "'p prophet \<Rightarrow> observation list \<Rightarrow> nat \<Rightarrow> py_error + ('p fitted \<times> forecast_row list)" where
  "train_prophet_model lib historical_data periods =
     (case prophet_fit lib historical_data of
        Inl e \<Rightarrow> Inl e
      | Inr model \<Rightarrow>
     (case make_future_dataframe model periods of
        Inl e \<Rightarrow> Inl e
      | Inr future \<Rightarrow>
     (case predict lib model future of
        Inl e \<Rightarrow> Inl e
      | Inr forecast \<Rightarrow> Inr (model, forecast))))"

text \<open>
  The slice \<open>xs[-n:]\<close> of Python: the last \<open>n\<close> elements, all of them when there
  are fewer, and the whole sequence when \<open>n\<close> is zero.
\<close>

definition tail_slice :: "nat \<Rightarrow> 'a list \<Rightarrow> 'a list" where
  "tail_slice n xs = (if n = 0 then xs else drop (length xs - n) xs)"

text \<open>
  The prediction trace of \<open>plot_prediction\<close>: the columns \<open>ds\<close>, \<open>yhat\<close>,
  \<open>yhat_upper\<close> and \<open>yhat_lower\<close> are each sliced with \<open>[-prediction_days:]\<close>,
  that is, the rows of the forecast are.
\<close>

definition prediction_view :: "forecast_row list \<Rightarrow> nat \<Rightarrow> forecast_row list" where
  "prediction_view forecast prediction_days = tail_slice prediction_days forecast"

text \<open>
  A stand-in for the library, to run the code on concrete inputs: it fits any history
  to its last close and predicts that close, give or take one.
\<close>

definition naive_prophet :: "npfloat prophet" where
  "naive_prophet =
     \<lparr> fit_params = (\<lambda>h. Inr (y (last h))),
       predict_at = (\<lambda>p d. (p, npsub p (Fin 1), npadd p (Fin 1))) \<rparr>"

text \<open>A history of ten daily closes.\<close>

definition history10 :: "observation list" where
  "history10 = map (\<lambda>i. \<lparr> ds = int i, y = Fin (100 + of_nat i) \<rparr>) [1..<11]"

section \<open>The time-bounded cache\<close>

text \<open>
  The source caches both loaders with Streamlit's decorator:
  \<open>@st.cache_data(ttl=30)\<close> on \<open>load_stock_data\<close> and
  \<open>@st.cache_data(ttl=3600)\<close> on \<open>load_historical_data\<close>. The two constants are
  the source's; the cache itself is not code of the source files and is modelled from
  the specification, with the clock as an explicit argument (seconds, as a natural
  number) and a counter of the computations that were run.
\<close>

definition snapshot_ttl :: nat where
  "snapshot_ttl = 30"

definition history_ttl :: nat where
  "history_ttl = 3600"

datatype cache_error = ComputeError

record 'v cache_entry =
  cached_value :: 'v
  created :: nat
  entry_ttl :: nat

record ('k, 'v) cache =
  entries :: "'k \<rightharpoonup> 'v cache_entry"
  computations :: nat

text \<open>
  Modelled from the spec: an entry is live (not expired) while the clock has not
  reached its creation timestamp plus its TTL. The cache is absent from the source
  files.
\<close>

definition live :: "'v cache_entry \<Rightarrow> nat \<Rightarrow> bool" where
  "live e now = (now < created e + entry_ttl e)"

text \<open>
  Modelled from the spec: the recomputation of \<open>get_or_compute\<close> for an absent or
  expired entry, which is absent from the source files. The computation is run once
  (counted). Its result is stored with the current time and the TTL. When it fails, a
  stale value is served if one exists and the caller's policy allows it; otherwise the
  call fails with \<open>ComputeError\<close> and the expired entry is evicted.
\<close>

definition recompute ::
  "'k \<Rightarrow> nat \<Rightarrow> (nat \<Rightarrow> py_error + 'v) \<Rightarrow> bool \<Rightarrow> nat \<Rightarrow> ('k, 'v) cache
     \<Rightarrow> (cache_error + 'v) \<times> ('k, 'v) cache" where
  "recompute key ttl compute_fn serve_stale now c =
     (case compute_fn now of
        Inr v \<Rightarrow>
          (Inr v,
           c \<lparr> entries := (entries c)(key \<mapsto>
                 \<lparr> cached_value = v, created = now, entry_ttl = ttl \<rparr>),
               computations := Suc (computations c) \<rparr>)
      | Inl err \<Rightarrow>
          (case entries c key of
             Some old \<Rightarrow>
               if serve_stale
               then (Inr (cached_value old), c \<lparr> computations := Suc (computations c) \<rparr>)
               else (Inl ComputeError,
                     c \<lparr> entries := (entries c)(key := None),
                         computations := Suc (computations c) \<rparr>)
           | None \<Rightarrow> (Inl ComputeError, c \<lparr> computations := Suc (computations c) \<rparr>)))"

text \<open>
  Modelled from the spec: \<open>get_or_compute(key, ttl, compute_fn)\<close> of section 4.1,
  absent from the source files. A live entry is returned at once, with no
  recomputation; an absent or expired one is recomputed.
\<close>

definition get_or_compute ::
  "'k \<Rightarrow> nat \<Rightarrow> (nat \<Rightarrow> py_error + 'v) \<Rightarrow> bool \<Rightarrow> nat \<Rightarrow> ('k, 'v) cache
     \<Rightarrow> (cache_error + 'v) \<times> ('k, 'v) cache" where
  "get_or_compute key ttl compute_fn serve_stale now c =
     (case entries c key of
        Some e \<Rightarrow>
          if live e now then (Inr (cached_value e), c)
          else recompute key ttl compute_fn serve_stale now c
      | None \<Rightarrow> recompute key ttl compute_fn serve_stale now c)"

text \<open>
  Modelled from the spec: \<open>invalidate(key)\<close>, absent from the source files, forces
  the next call to recompute.
\<close>

definition invalidate :: "'k \<Rightarrow> ('k, 'v) cache \<Rightarrow> ('k, 'v) cache" where
  "invalidate key c = c \<lparr> entries := (entries c)(key := None) \<rparr>"

text \<open>Whether the cache holds a live entry for the key.\<close>

definition has_live :: "('k, 'v) cache \<Rightarrow> 'k \<Rightarrow> nat \<Rightarrow> bool" where
  "has_live c key now = (case entries c key of None \<Rightarrow> False | Some e \<Rightarrow> live e now)"

text \<open>An empty cache, and a computation whose result changes with every second.\<close>

definition empty_cache :: "(string, nat) cache" where
  "empty_cache = \<lparr> entries = Map.empty, computations = 0 \<rparr>"

definition clock_value :: "nat \<Rightarrow> py_error + nat" where
  "clock_value now = Inr (7 * now)"

section \<open>Properties of the snapshot builder\<close>





lemma build_snapshot_symbol:
  "build_snapshot src symbols data symb = Inr snap \<Longrightarrow> symbol snap = symb"
  by (auto simp: build_snapshot_def split: sum.splits)

lemma collect_symbols:
  "map symbol (collect src symbols data todo acc) =
     map symbol acc @ filter (symbol_ok src symbols data) todo"
proof (induction todo arbitrary: acc)
  case Nil
  then show ?case by simp
next
  case (Cons s todo)
  show ?case
  proof (cases "build_snapshot src symbols data s")
    case (Inl e)
    then show ?thesis using Cons.IH by (simp add: symbol_ok_def)
  next
    case (Inr snap)
    then show ?thesis
      using Cons.IH build_snapshot_symbol[OF Inr] by (simp add: symbol_ok_def)
  qed
qed

lemma collect_rows:
  "collect src symbols data todo acc =
     acc @ map (\<lambda>s. projr (build_snapshot src symbols data s))
             (filter (symbol_ok src symbols data) todo)"
  by (induction todo arbitrary: acc) (auto simp: symbol_ok_def split: sum.splits)








text \<open>
  C2. A symbol whose fetch or parse raises is excluded, exactly that symbol, and the
  batch is never aborted: whenever the batch download itself succeeds,
  \<open>load_stock_data\<close> returns a frame, and its rows are the snapshots of exactly the
  symbols whose processing did not raise, in the order of the symbol list.
\<close>

theorem load_stock_data_drops_failed_symbols:
  assumes "download src symbols = Inr data"
  shows "\<exists>df. load_stock_data src symbols = Some df \<and>
              map symbol df = filter (symbol_ok src symbols data) symbols \<and>
              df = map (\<lambda>s. projr (build_snapshot src symbols data s))
                     (filter (symbol_ok src symbols data) symbols)"
proof -
  have "load_stock_data src symbols = Some (collect src symbols data symbols [])"
    using assms by (simp add: load_stock_data_def)
  moreover have "map symbol (collect src symbols data symbols []) =
      filter (symbol_ok src symbols data) symbols"
    using collect_symbols[of src symbols data symbols "[]"] by simp
  moreover have "collect src symbols data symbols [] =
      map (\<lambda>s. projr (build_snapshot src symbols data s))
        (filter (symbol_ok src symbols data) symbols)"
    using collect_rows[of src symbols data symbols "[]"] by simp
  ultimately show ?thesis by simp
qed

text \<open>
  The batch \<open>A, B, C\<close>: the source raises for \<open>B\<close> only, the frame holds
  \<open>A\<close> and \<open>C\<close>.
\<close>

theorem load_stock_data_drops_failed_symbols_witness:
  "download abc_source [''A'', ''B'', ''C''] = Inr abc_data \<and>
   map_option (map symbol) (load_stock_data abc_source [''A'', ''B'', ''C'']) = Some [''A'', ''C'']"
proof -
  have d: "download abc_source [''A'', ''B'', ''C''] = Inr abc_data"
    by (simp add: abc_source_def)
  have ok: "filter (symbol_ok abc_source [''A'', ''B'', ''C''] abc_data) [''A'', ''B'', ''C'']
      = [''A'', ''C'']"
    by (simp add: symbol_ok_def build_snapshot_def symbol_rows_def abc_data_def
        abc_source_def two_bars_def iloc_def)
  from load_stock_data_drops_failed_symbols[OF d] ok d show ?thesis by auto
qed




section \<open>Properties of ranking and aggregation\<close>

lemma desc_rank_finite: "desc_rank (Fin a) \<le> desc_rank (Fin b) \<longleftrightarrow> b \<le> a"
  by simp

lemma asc_rank_finite: "asc_rank (Fin a) \<le> asc_rank (Fin b) \<longleftrightarrow> a \<le> b"
  by simp

lemma desc_rank_inj: "desc_rank a = desc_rank b \<longleftrightarrow> a = b"
  by (cases a; cases b) simp_all

lemma asc_rank_inj: "asc_rank a = asc_rank b \<longleftrightarrow> a = b"
  by (cases a; cases b) simp_all

lemma ties_keep_arrival_order:
  assumes "\<And>a b. rank a = rank b \<longleftrightarrow> a = b"
  shows "prefix (filter (\<lambda>r. change r = x) (take k (sort_key (\<lambda>r. rank (change r)) c)))
           (filter (\<lambda>r. change r = x) c)"
proof -
  have "filter (\<lambda>r. rank (change r) = rank x) (sort_key (\<lambda>r. rank (change r)) c)
      = filter (\<lambda>r. rank (change r) = rank x) c"
    by (rule sort_key_stable)
  then have "filter (\<lambda>r. change r = x) (sort_key (\<lambda>r. rank (change r)) c)
      = filter (\<lambda>r. change r = x) c"
    by (simp add: assms)
  moreover have "prefix (filter (\<lambda>r. change r = x) (take k (sort_key (\<lambda>r. rank (change r)) c)))
      (filter (\<lambda>r. change r = x) (sort_key (\<lambda>r. rank (change r)) c))"
    by (rule filter_mono_prefix) (rule take_is_prefix)
  ultimately show ?thesis by simp
qed

lemma nlargest_sorted: "sorted (map (\<lambda>r. desc_rank (change r)) (nlargest k c))"
  unfolding nlargest_def by (simp add: take_map[symmetric])

lemma nsmallest_sorted: "sorted (map (\<lambda>r. asc_rank (change r)) (nsmallest k c))"
  unfolding nsmallest_def by (simp add: take_map[symmetric])

lemma nlargest_ties:
  "prefix (filter (\<lambda>r. change r = x) (nlargest k c)) (filter (\<lambda>r. change r = x) c)"
  unfolding nlargest_def by (rule ties_keep_arrival_order) (rule desc_rank_inj)

lemma nsmallest_ties:
  "prefix (filter (\<lambda>r. change r = x) (nsmallest k c)) (filter (\<lambda>r. change r = x) c)"
  unfolding nsmallest_def by (rule ties_keep_arrival_order) (rule asc_rank_inj)

lemma nlargest_perm: "mset (nlargest k c @ drop k (nlargest (length c) c)) = mset c"
  by (simp add: nlargest_def)

lemma nsmallest_perm: "mset (nsmallest k c @ drop k (nsmallest (length c) c)) = mset c"
  by (simp add: nsmallest_def)

text \<open>
  C5 (as stated, fails). On a frame of twelve symbols with the same change, the top
  ten and the bottom ten are the first ten symbols in order of arrival: \<open>MSFT\<close>
  is listed before \<open>AMZN\<close>, and \<open>V\<close> is listed while \<open>PG\<close> is left out,
  although \<open>AMZN\<close> and \<open>PG\<close> are the smaller symbols in lexical order.
\<close>

theorem ranking_tie_break_counterexample:
  "map symbol flat_market =
     [''AAPL'', ''MSFT'', ''GOOGL'', ''AMZN'', ''META'', ''TSLA'', ''NVDA'', ''JPM'',
      ''JNJ'', ''V'', ''PG'', ''UNH''] \<and>
   set (map change flat_market) = {Fin 0} \<and>
   map symbol (top_performers flat_market) =
     [''AAPL'', ''MSFT'', ''GOOGL'', ''AMZN'', ''META'', ''TSLA'', ''NVDA'', ''JPM'',
      ''JNJ'', ''V''] \<and>
   map symbol (bottom_performers flat_market) =
     [''AAPL'', ''MSFT'', ''GOOGL'', ''AMZN'', ''META'', ''TSLA'', ''NVDA'', ''JPM'',
      ''JNJ'', ''V''] \<and>
   ''AMZN'' < ''MSFT'' \<and> ''PG'' < ''V''"
  by (simp add: top_performers_def bottom_performers_def nlargest_def nsmallest_def
      flat_market_def tracked_symbols_def flat_row_def)

text \<open>
  C5 (amended). For every frame \<open>c\<close> and every \<open>k\<close>, \<open>nlargest k c\<close> is ordered
  by percent change descending and \<open>nsmallest k c\<close> ascending (rows whose change is
  not-a-number last); rows with equal change keep their order of arrival in the frame
  (they are an initial segment of the rows of \<open>c\<close> with that change); \<open>k\<close> is
  clamped to the size of the frame; and the ranking followed by the rows ranked after
  position \<open>k\<close> is a permutation of \<open>c\<close>.
\<close>

theorem ranking_sorted_stable_clamped_perm:
  "sorted (map (\<lambda>r. desc_rank (change r)) (nlargest k c)) \<and>
   sorted (map (\<lambda>r. asc_rank (change r)) (nsmallest k c)) \<and>
   prefix (filter (\<lambda>r. change r = x) (nlargest k c)) (filter (\<lambda>r. change r = x) c) \<and>
   prefix (filter (\<lambda>r. change r = x) (nsmallest k c)) (filter (\<lambda>r. change r = x) c) \<and>
   length (nlargest k c) = min k (length c) \<and>
   length (nsmallest k c) = min k (length c) \<and>
   mset (nlargest k c @ drop k (nlargest (length c) c)) = mset c \<and>
   mset (nsmallest k c @ drop k (nsmallest (length c) c)) = mset c"
  using nlargest_sorted[of k c] nsmallest_sorted[of k c] nlargest_ties[of x k c]
    nsmallest_ties[of x k c] nlargest_perm[of k c] nsmallest_perm[of k c]
  by (simp add: nlargest_def nsmallest_def)

lemma non_null_pe_filter: "non_null_pe df = filter (\<lambda>x. x \<noteq> NaN) (map pe_cell df)"
  by (induction df) (auto simp: non_null_pe_def pe_cell_def split: option.splits)

lemma foldl_npadd_finite: "foldl npadd (Fin a) (map Fin vs) = Fin (a + sum_list vs)"
  by (induction vs arbitrary: a) (simp_all add: add.assoc)

lemma avg_pe_non_null:
  "avg_pe df =
     (if non_null_pe df = [] then NaN
      else npdiv (foldl npadd (Fin 0) (non_null_pe df))
             (Fin (of_nat (length (non_null_pe df)))))"
  by (simp add: avg_pe_def mean_skipna_def non_null_pe_filter Let_def)

lemma render_avg_pe_nan: "non_null_pe df = [] \<Longrightarrow> render_avg_pe fixed df = ''nan''"
  by (simp add: render_avg_pe_def format_2f_def avg_pe_non_null)

lemma avg_pe_finite:
  "non_null_pe df = map Fin vs \<Longrightarrow> vs \<noteq> [] \<Longrightarrow>
     avg_pe df = Fin (sum_list vs / of_nat (length vs))"
  by (simp add: avg_pe_non_null foldl_npadd_finite)

text \<open>
  C9. The mean P/E is taken over exactly the symbols with a non-null P/E: it is the sum
  of those values divided by their number (for finite values, their arithmetic mean).
  When no symbol has a non-null P/E the mean is not-a-number, and the card shows the
  text \<open>nan\<close>, not a zero.
\<close>

theorem avg_pe_over_non_null:
  "avg_pe df =
     (if non_null_pe df = [] then NaN
      else npdiv (foldl npadd (Fin 0) (non_null_pe df))
             (Fin (of_nat (length (non_null_pe df))))) \<and>
   (non_null_pe df = map Fin vs \<and> vs \<noteq> [] \<longrightarrow>
      avg_pe df = Fin (sum_list vs / of_nat (length vs))) \<and>
   (non_null_pe df = [] \<longrightarrow> avg_pe df = NaN \<and> render_avg_pe fixed df = ''nan'')"
  using avg_pe_non_null[of df] avg_pe_finite[of df vs] render_avg_pe_nan[of df fixed]
  by simp

text \<open>
  Two symbols with the ratios 10 and 20 and one without a ratio have the mean 15; a
  frame in which no symbol has a ratio has the mean not-a-number, shown as \<open>nan\<close>.
\<close>

theorem avg_pe_over_non_null_witness:
  "avg_pe [flat_row ''A'' 1 \<lparr> pe_ratio := Some (Fin 10) \<rparr>, flat_row ''B'' 2,
           flat_row ''C'' 3 \<lparr> pe_ratio := Some (Fin 20) \<rparr>] = Fin 15 \<and>
   avg_pe tie_frame = NaN \<and>
   render_avg_pe (\<lambda>a. ''0.00'') tie_frame = ''nan''"
proof -
  let ?df = "[flat_row ''A'' 1 \<lparr> pe_ratio := Some (Fin 10) \<rparr>, flat_row ''B'' 2,
              flat_row ''C'' 3 \<lparr> pe_ratio := Some (Fin 20) \<rparr>]"
  have some: "non_null_pe ?df = map Fin [10, 20] \<and> [10, 20] \<noteq> ([]::rat list)"
    by (simp add: non_null_pe_def flat_row_def)
  have none: "non_null_pe tie_frame = []"
    by (simp add: non_null_pe_def tie_frame_def flat_row_def)
  from avg_pe_over_non_null[of ?df "[10, 20]" "\<lambda>a. ''0.00''"] some
  have "avg_pe ?df = Fin (sum_list [10, 20] / of_nat (length [10, 20::rat]))"
    by blast
  moreover from avg_pe_over_non_null[of tie_frame "[]" "\<lambda>a. ''0.00''"] none
  have "avg_pe tie_frame = NaN \<and> render_avg_pe (\<lambda>a. ''0.00'') tie_frame = ''nan''"
    by blast
  ultimately show ?thesis by simp
qed

section \<open>Properties of the per-symbol lookup\<close>

lemma select_symbol_absent:
  "symb \<notin> symbol ` set df \<Longrightarrow>
     select_symbol df symb = Inl (if df = [] then KeyError else IndexError)"
  by (auto simp: select_symbol_def iloc_def filter_empty_conv)

lemma select_symbol_present:
  assumes "symb \<in> symbol ` set df"
  shows "\<exists>r. select_symbol df symb = Inr r \<and> r \<in> set df \<and> symbol r = symb"
proof -
  from assms have ne: "filter (\<lambda>r. symbol r = symb) df \<noteq> []"
    by (auto simp: filter_empty_conv)
  then obtain r rs where f: "filter (\<lambda>r. symbol r = symb) df = r # rs"
    by (cases "filter (\<lambda>r. symbol r = symb) df") auto
  then have "r \<in> set (filter (\<lambda>r. symbol r = symb) df)" by simp
  then have "r \<in> set df \<and> symbol r = symb" by simp
  moreover have "df \<noteq> []" using ne by auto
  ultimately show ?thesis using f by (auto simp: select_symbol_def iloc_def)
qed

text \<open>
  C10. The lookup needs the symbol to be in the frame. When it is absent,
  \<open>get_stock_metrics\<close> and the prediction page's lookup raise Python's own lookup
  error (\<open>IndexError\<close> from \<open>.iloc[0]\<close>; \<open>KeyError\<close> on a frame with no rows),
  not a typed failure and not an empty result. When it is present they return the
  values of a row of the frame with that symbol.
\<close>

theorem lookup_requires_symbol:
  "(symb \<notin> symbol ` set df \<longrightarrow>
      get_stock_metrics df symb = Inl (if df = [] then KeyError else IndexError) \<and>
      current_stock_info df symb = Inl (if df = [] then KeyError else IndexError)) \<and>
   (symb \<in> symbol ` set df \<longrightarrow>
      (\<exists>r. r \<in> set df \<and> symbol r = symb \<and> current_stock_info df symb = Inr r \<and>
           (\<exists>m. get_stock_metrics df symb = Inr m \<and> m_price m = price r \<and>
                m_change m = change r)))"
proof (intro conjI impI)
  assume "symb \<notin> symbol ` set df"
  from select_symbol_absent[OF this]
  show "get_stock_metrics df symb = Inl (if df = [] then KeyError else IndexError)"
    and "current_stock_info df symb = Inl (if df = [] then KeyError else IndexError)"
    by (simp_all add: get_stock_metrics_def current_stock_info_def)
next
  assume "symb \<in> symbol ` set df"
  from select_symbol_present[OF this] obtain r where
    r: "select_symbol df symb = Inr r" "r \<in> set df" "symbol r = symb" by blast
  then show "\<exists>r. r \<in> set df \<and> symbol r = symb \<and> current_stock_info df symb = Inr r \<and>
      (\<exists>m. get_stock_metrics df symb = Inr m \<and> m_price m = price r \<and> m_change m = change r)"
    by (auto simp: get_stock_metrics_def current_stock_info_def)
qed

text \<open>
  \<open>TSLA\<close> is not in the example frame and its lookup raises; \<open>AAPL\<close> is found.
\<close>

theorem lookup_requires_symbol_witness:
  "get_stock_metrics tie_frame ''TSLA'' = Inl IndexError \<and>
   current_stock_info tie_frame ''TSLA'' = Inl IndexError \<and>
   get_stock_metrics [] ''TSLA'' = Inl KeyError \<and>
   map_sum id symbol (current_stock_info tie_frame ''AAPL'') = Inr ''AAPL''"
proof -
  have absent: "''TSLA'' \<notin> symbol ` set tie_frame"
    by (simp add: tie_frame_def flat_row_def)
  have present: "''AAPL'' \<in> symbol ` set tie_frame"
    by (simp add: tie_frame_def flat_row_def)
  have ne: "tie_frame \<noteq> []" by (simp add: tie_frame_def)
  from lookup_requires_symbol[of "''TSLA''" tie_frame] absent ne
  have "get_stock_metrics tie_frame ''TSLA'' = Inl IndexError \<and>
      current_stock_info tie_frame ''TSLA'' = Inl IndexError"
    by simp
  moreover from lookup_requires_symbol[of "''TSLA''" "[]"]
  have "get_stock_metrics [] ''TSLA'' = Inl KeyError" by simp
  moreover from lookup_requires_symbol[of "''AAPL''" tie_frame] present
  have "map_sum id symbol (current_stock_info tie_frame ''AAPL'') = Inr ''AAPL''"
    by auto
  ultimately show ?thesis by simp
qed

section \<open>Properties of the forecasting code\<close>

lemma prophet_fit_dates:
  assumes "prophet_fit lib h = Inr m"
  shows "history_dates m \<noteq> []"
proof -
  from assms have len: "2 \<le> length (filter (\<lambda>r. y r \<noteq> NaN) h)"
    and hd: "history_dates m = sort (remdups (map ds h))"
    by (auto simp: prophet_fit_def split: if_splits sum.splits)
  from len have "h \<noteq> []" by auto
  then have "set (sort (remdups (map ds h))) \<noteq> {}" by simp
  then have "sort (remdups (map ds h)) \<noteq> []" by fastforce
  with hd show ?thesis by simp
qed

lemma prophet_fit_fails:
  "prophet_fit lib h = Inl e \<longleftrightarrow>
     (length (filter (\<lambda>r. y r \<noteq> NaN) h) < 2 \<and> e = ValueError) \<or>
     (2 \<le> length (filter (\<lambda>r. y r \<noteq> NaN) h) \<and> fit_params lib h = Inl e)"
  by (auto simp: prophet_fit_def split: sum.splits)

lemma prophet_fit_succeeds:
  "2 \<le> length (filter (\<lambda>r. y r \<noteq> NaN) h) \<Longrightarrow> fit_params lib h = Inr p \<Longrightarrow>
     prophet_fit lib h = Inr \<lparr> history_dates = sort (remdups (map ds h)), params = p \<rparr>"
  by (simp add: prophet_fit_def)

lemma forecast_row_day:
  "ds (case p of (est, lo, hi) \<Rightarrow>
         \<lparr> ds = d, yhat = est, yhat_lower = lo, yhat_upper = hi \<rparr>) = d"
  by (cases p) simp

lemma predict_days: "predict lib m future = Inr fc \<Longrightarrow> map ds fc = future"
  by (auto simp: predict_def o_def forecast_row_day split: if_splits)

lemma train_fails_iff:
  "train_prophet_model lib h n = Inl e \<longleftrightarrow> prophet_fit lib h = Inl e"
proof (cases "prophet_fit lib h")
  case (Inl e')
  then show ?thesis by (simp add: train_prophet_model_def)
next
  case (Inr m)
  from prophet_fit_dates[OF Inr] Inr show ?thesis
    by (simp add: train_prophet_model_def make_future_dataframe_def predict_def)
qed

lemma train_succeeds:
  assumes "train_prophet_model lib h n = Inr (m, fc)"
  shows "prophet_fit lib h = Inr m \<and> history_dates m \<noteq> [] \<and>
     map ds fc =
       history_dates m @ map (\<lambda>i. last (history_dates m) + int i) [1..<Suc n]"
proof -
  from assms obtain future where
    fit: "prophet_fit lib h = Inr m" and
    fut: "make_future_dataframe m n = Inr future" and
    pr: "predict lib m future = Inr fc"
    by (auto simp: train_prophet_model_def split: sum.splits)
  from prophet_fit_dates[OF fit] have ne: "history_dates m \<noteq> []" .
  with fut have
    "future = history_dates m @ map (\<lambda>i. last (history_dates m) + int i) [1..<Suc n]"
    by (simp add: make_future_dataframe_def)
  with predict_days[OF pr] fit ne show ?thesis by simp
qed

lemma train_returns:
  assumes "prophet_fit lib h = Inr m"
  shows "\<exists>fc. train_prophet_model lib h n = Inr (m, fc)"
  using assms prophet_fit_dates[OF assms]
  by (simp add: train_prophet_model_def make_future_dataframe_def predict_def)

lemma train_length:
  assumes "train_prophet_model lib h n = Inr (m, fc)"
  shows "length fc = length (history_dates m) + n"
proof -
  from train_succeeds[OF assms]
  have "length (map ds fc) = length (history_dates m) + n" by simp
  then show ?thesis by simp
qed

lemma prediction_view_zero: "prediction_view fc 0 = fc"
  by (simp add: prediction_view_def tail_slice_def)

text \<open>
  C3 (as stated, fails). A history of ten closes is fitted and forecast: the call
  returns a forecast frame of ten plus thirty rows and raises nothing.
\<close>

theorem short_history_counterexample:
  "length history10 = 10 \<and>
   \<not> isl (train_prophet_model naive_prophet history10 30) \<and>
   length (snd (projr (train_prophet_model naive_prophet history10 30))) = 40"
  by code_simp

text \<open>
  C3 (amended). \<open>train_prophet_model\<close> has no minimum-history threshold of its own:
  it fails exactly when Prophet's fit fails, that is, with \<open>ValueError\<close> when the
  history has fewer than two rows with a value, or with the library's own error when
  the fitting raises. Every other history, of whatever length, yields a forecast.
\<close>

theorem train_prophet_model_fails_only_in_fit:
  "(train_prophet_model lib h n = Inl e \<longleftrightarrow>
      (length (filter (\<lambda>r. y r \<noteq> NaN) h) < 2 \<and> e = ValueError) \<or>
      (2 \<le> length (filter (\<lambda>r. y r \<noteq> NaN) h) \<and> fit_params lib h = Inl e)) \<and>
   (2 \<le> length (filter (\<lambda>r. y r \<noteq> NaN) h) \<and> fit_params lib h = Inr p \<longrightarrow>
      (\<exists>fc. train_prophet_model lib h n =
               Inr (\<lparr> history_dates = sort (remdups (map ds h)), params = p \<rparr>, fc)))"
  using train_fails_iff[of lib h n e] prophet_fit_fails[of lib h e]
    prophet_fit_succeeds[of h lib p] train_returns[of lib h _ n]
  by simp

text \<open>
  A history of one close fails with \<open>ValueError\<close>; the history of ten closes is
  fitted, on its ten days.
\<close>

theorem train_prophet_model_fails_only_in_fit_witness:
  "train_prophet_model naive_prophet (take 1 history10) 30 = Inl ValueError \<and>
   map_sum id (\<lambda>r. history_dates (fst r)) (train_prophet_model naive_prophet history10 30)
     = Inr [1, 2, 3, 4, 5, 6, 7, 8, 9, 10]"
proof -
  have short: "length (filter (\<lambda>r. y r \<noteq> NaN) (take 1 history10)) < 2"
    by code_simp
  have long: "2 \<le> length (filter (\<lambda>r. y r \<noteq> NaN) history10)" by code_simp
  have fit: "fit_params naive_prophet history10 = Inr (Fin 110)" by code_simp
  have days: "sort (remdups (map ds history10)) = [1, 2, 3, 4, 5, 6, 7, 8, 9, 10]"
    by code_simp
  from train_prophet_model_fails_only_in_fit
         [of naive_prophet "take 1 history10" 30 ValueError "Fin 110"] short
  have "train_prophet_model naive_prophet (take 1 history10) 30 = Inl ValueError"
    by simp
  moreover from train_prophet_model_fails_only_in_fit
         [of naive_prophet history10 30 ValueError "Fin 110"] long fit
  obtain fc where "train_prophet_model naive_prophet history10 30 =
      Inr (\<lparr> history_dates = sort (remdups (map ds history10)), params = Fin 110 \<rparr>, fc)"
    by blast
  ultimately show ?thesis using days by simp
qed

text \<open>
  C6. For a positive horizon, a successful call returns the full series, one row for
  each day of the history followed by one row for each of the \<open>n\<close> days after its last
  day, and the view that \<open>plot_prediction\<close> draws, the slice of the last \<open>n\<close>
  rows, has exactly \<open>n\<close> rows: the future part.
\<close>

theorem forecast_view_is_horizon:
  assumes "0 < n" and "train_prophet_model lib h n = Inr (m, fc)"
  shows "history_dates m = sort (remdups (map ds h)) \<and>
     length fc = length (history_dates m) + n \<and>
     map ds fc = history_dates m @ map (\<lambda>i. last (history_dates m) + int i) [1..<Suc n] \<and>
     length (prediction_view fc n) = n \<and>
     prediction_view fc n = drop (length (history_dates m)) fc \<and>
     map ds (prediction_view fc n) = map (\<lambda>i. last (history_dates m) + int i) [1..<Suc n]"
proof -
  from train_succeeds[OF assms(2)] have
    fit: "prophet_fit lib h = Inr m" and
    days: "map ds fc =
      history_dates m @ map (\<lambda>i. last (history_dates m) + int i) [1..<Suc n]"
    by simp_all
  from fit have hd: "history_dates m = sort (remdups (map ds h))"
    by (auto simp: prophet_fit_def split: if_splits sum.splits)
  have len: "length fc = length (history_dates m) + n"
    by (rule train_length[OF assms(2)])
  have view: "prediction_view fc n = drop (length (history_dates m)) fc"
    using assms(1) len by (simp add: prediction_view_def tail_slice_def)
  have vlen: "length (prediction_view fc n) = n"
    using view len by simp
  have "map ds (prediction_view fc n) = drop (length (history_dates m)) (map ds fc)"
    using view by (simp add: drop_map)
  then have vdays: "map ds (prediction_view fc n) =
      map (\<lambda>i. last (history_dates m) + int i) [1..<Suc n]"
    using days by simp
  from hd len days vlen view vdays show ?thesis by simp
qed

text \<open>
  Ten days of history and a horizon of thirty days: forty rows, of which the view shows
  the last thirty.
\<close>

theorem forecast_view_is_horizon_witness:
  "(0::nat) < 30 \<and>
   length (snd (projr (train_prophet_model naive_prophet history10 30))) = 40 \<and>
   length (prediction_view (snd (projr (train_prophet_model naive_prophet history10 30))) 30)
     = 30"
proof -
  let ?r = "projr (train_prophet_model naive_prophet history10 30)"
  have "\<not> isl (train_prophet_model naive_prophet history10 30)" by code_simp
  then have tr: "train_prophet_model naive_prophet history10 30 = Inr (fst ?r, snd ?r)"
    by (cases "train_prophet_model naive_prophet history10 30") simp_all
  have pos: "(0::nat) < 30" by simp
  have days: "length (sort (remdups (map ds history10))) = 10" by code_simp
  from forecast_view_is_horizon[OF pos tr] days pos show ?thesis by simp
qed

section \<open>Properties of the cache\<close>

lemma get_or_compute_hit:
  assumes "has_live c key now"
  shows "\<exists>e. entries c key = Some e \<and>
              get_or_compute key ttl g pol now c = (Inr (cached_value e), c)"
  using assms by (auto simp: has_live_def get_or_compute_def split: option.splits)

lemma get_or_compute_miss:
  assumes "\<not> has_live c key t0" and "f t0 = Inr v"
  shows "get_or_compute key ttl f pol t0 c =
     (Inr v,
      c \<lparr> entries := (entries c)(key \<mapsto> \<lparr> cached_value = v, created = t0, entry_ttl = ttl \<rparr>),
          computations := Suc (computations c) \<rparr>)"
  using assms
  by (auto simp: has_live_def get_or_compute_def recompute_def split: option.splits)

lemma fresh_entry_live:
  assumes "t0 \<le> t1" and "t1 < t0 + ttl"
  shows "has_live
           (c \<lparr> entries := (entries c)(key \<mapsto>
                   \<lparr> cached_value = v, created = t0, entry_ttl = ttl \<rparr>),
               computations := n \<rparr>) key t1"
  using assms by (simp add: has_live_def live_def)

lemma second_call_hits:
  assumes "\<not> has_live c key t0" and "f t0 = Inr v" and "t0 \<le> t1" and "t1 < t0 + ttl"
  shows "fst (get_or_compute key ttl f pol t0 c) = Inr v \<and>
     computations (snd (get_or_compute key ttl f pol t0 c)) = Suc (computations c) \<and>
     get_or_compute key ttl' g pol' t1 (snd (get_or_compute key ttl f pol t0 c)) =
       (Inr v, snd (get_or_compute key ttl f pol t0 c))"
proof -
  let ?c1 = "c \<lparr> entries := (entries c)(key \<mapsto>
                  \<lparr> cached_value = v, created = t0, entry_ttl = ttl \<rparr>),
                computations := Suc (computations c) \<rparr>"
  have first: "get_or_compute key ttl f pol t0 c = (Inr v, ?c1)"
    using assms(1,2) by (simp add: get_or_compute_miss)
  have "has_live ?c1 key t1"
    by (rule fresh_entry_live[OF assms(3,4)])
  from get_or_compute_hit[OF this, of ttl' g pol']
  have "get_or_compute key ttl' g pol' t1 ?c1 = (Inr v, ?c1)" by simp
  with first show ?thesis by simp
qed

text \<open>
  C7. A call that finds a live entry returns its value and leaves the cache, and with
  it the count of computations, as it was. In particular, after a call at time \<open>t0\<close>
  that had to compute and stored the value \<open>v\<close> with a TTL, every call for the same
  key at a time \<open>t1\<close> within the window, \<open>t0 \<le> t1 < t0 + ttl\<close>, returns \<open>v\<close>
  and runs no computation, whatever the computation would return by then. The TTL is
  any number of seconds, 30 (snapshots) and 3600 (history) included.
\<close>

theorem second_call_within_ttl_is_cached:
  "(has_live c key now \<longrightarrow>
      (\<exists>e. entries c key = Some e \<and>
           get_or_compute key ttl g pol now c = (Inr (cached_value e), c))) \<and>
   (\<not> has_live c key t0 \<and> f t0 = Inr v \<and> t0 \<le> t1 \<and> t1 < t0 + ttl \<longrightarrow>
      fst (get_or_compute key ttl f pol t0 c) = Inr v \<and>
      computations (snd (get_or_compute key ttl f pol t0 c)) = Suc (computations c) \<and>
      get_or_compute key ttl' g pol' t1 (snd (get_or_compute key ttl f pol t0 c)) =
        (Inr v, snd (get_or_compute key ttl f pol t0 c)))"
  using get_or_compute_hit[of c key now ttl g pol]
    second_call_hits[of c key t0 f v t1 ttl pol ttl' g pol']
  by blast

text \<open>
  A first call at second 100 computes 700. With the snapshot TTL a call at second 129,
  and with the history TTL a call at second 3699, still return 700, and one computation
  has been run.
\<close>

theorem second_call_within_ttl_is_cached_witness:
  "get_or_compute ''load_stock_data'' snapshot_ttl clock_value False 129
     (snd (get_or_compute ''load_stock_data'' snapshot_ttl clock_value False 100 empty_cache))
   = (Inr 700,
      snd (get_or_compute ''load_stock_data'' snapshot_ttl clock_value False 100 empty_cache)) \<and>
   computations
     (snd (get_or_compute ''load_stock_data'' snapshot_ttl clock_value False 100 empty_cache))
   = 1 \<and>
   fst (get_or_compute ''AAPL'' history_ttl clock_value False 3699
     (snd (get_or_compute ''AAPL'' history_ttl clock_value False 100 empty_cache)))
   = Inr 700"
proof -
  have miss: "\<not> has_live empty_cache k 100" for k :: string
    by (simp add: has_live_def empty_cache_def)
  have v: "clock_value 100 = Inr 700" by (simp add: clock_value_def)
  have w30: "(100::nat) \<le> 129 \<and> (129::nat) < 100 + snapshot_ttl"
    by (simp add: snapshot_ttl_def)
  have w3600: "(100::nat) \<le> 3699 \<and> (3699::nat) < 100 + history_ttl"
    by (simp add: history_ttl_def)
  from second_call_within_ttl_is_cached
         [where c = empty_cache and key = "''load_stock_data''" and ttl = snapshot_ttl
            and f = clock_value and pol = False and ?t0.0 = 100 and v = 700 and ?t1.0 = 129
            and ttl' = snapshot_ttl and g = clock_value and pol' = False and now = 100]
    miss v w30
  have a: "computations
        (snd (get_or_compute ''load_stock_data'' snapshot_ttl clock_value False 100 empty_cache))
      = Suc (computations empty_cache) \<and>
    get_or_compute ''load_stock_data'' snapshot_ttl clock_value False 129
      (snd (get_or_compute ''load_stock_data'' snapshot_ttl clock_value False 100 empty_cache))
    = (Inr 700,
       snd (get_or_compute ''load_stock_data'' snapshot_ttl clock_value False 100 empty_cache))"
    by blast
  from second_call_within_ttl_is_cached
         [where c = empty_cache and key = "''AAPL''" and ttl = history_ttl
            and f = clock_value and pol = False and ?t0.0 = 100 and v = 700 and ?t1.0 = 3699
            and ttl' = history_ttl and g = clock_value and pol' = False and now = 100]
    miss v w3600
  have b: "get_or_compute ''AAPL'' history_ttl clock_value False 3699
      (snd (get_or_compute ''AAPL'' history_ttl clock_value False 100 empty_cache))
    = (Inr 700, snd (get_or_compute ''AAPL'' history_ttl clock_value False 100 empty_cache))"
    by blast
  have "computations empty_cache = 0" by (simp add: empty_cache_def)
  with a b show ?thesis by simp
qed

end
